theory Spec2Isabelle
  imports Main
begin

section \<open>Values, requests, responses\<close>

text \<open>
  The dispatcher of \<^verbatim>\<open>src/index.ts\<close> treats requests and responses as opaque
  platform values. A request is modelled by the two properties the dispatcher reads
  (\<^verbatim>\<open>req.url\<close>, and \<^verbatim>\<open>req.method\<close> as the field \<open>req_method\<close>) and its body; a
  response by the three components the constructor receives (body, status, headers of
  the init argument; headers the platform adds on its own are not part of the model).

  JavaScript values that can be stored as application state or in an object are
  primitives or references to objects; objects live in a store indexed by address,
  so that two references to one object observe each other's writes.
\<close>

datatype jsval = JUndefined | JNum int | JStr string | JBool bool | JRef nat

type_synonym obj = "string \<rightharpoonup> jsval"

type_synonym obj_store = "nat \<Rightarrow> obj"

record request =
  url :: string
  req_method :: string
  req_body :: string

record response =
  status :: nat
  headers :: "(string \<times> string) list"
  body :: string

text \<open>\<^verbatim>\<open>new Response(body, { status, headers })\<close>: the status defaults to 200.\<close>

definition new_Response :: "string \<Rightarrow> nat option \<Rightarrow> (string \<times> string) list \<Rightarrow> response" where
  "new_Response b st hs =
     \<lparr>status = (case st of None \<Rightarrow> 200 | Some n \<Rightarrow> n), headers = hs, body = b\<rparr>"

text \<open>
  What an awaited middleware or handler, or the URL constructor, can raise:
  any thrown value, or the \<^verbatim>\<open>TypeError\<close> of \<^verbatim>\<open>new URL(req.url)\<close> on an
  unparseable URL.
\<close>

datatype error = Thrown jsval | TypeError_Invalid_URL

section \<open>Context, handlers, middleware\<close>

text \<open>
  \<^verbatim>\<open>interface Context { req; data; state }\<close>. The scratch object \<^verbatim>\<open>data\<close> is
  created by the object literal in \<^verbatim>\<open>fetch\<close> and handed to nothing but the
  middleware and the handler of that call, as a field of \<^verbatim>\<open>c\<close>; it is a field of the
  context value here; the section on the scratch object below models it as an object
  of the store, for what depends on the reference. \<^verbatim>\<open>state\<close> is the application's
  state value, a reference into the object store when it is an object.

  A middleware or handler is a function of the context it is called with and of the
  object store (the shared state objects it can read and write). It returns the store
  it leaves behind, together with either the error it raised or its result: the
  context as the middleware left it, or the handler's response. Handlers and middleware
  have no access to the private fields \<^verbatim>\<open>#routes\<close> and \<^verbatim>\<open>#middlewares\<close>;
  registrations made while a dispatch is running are outside this model.
\<close>

record Context =
  req :: request
  data :: obj
  state :: jsval

type_synonym handler = "Context \<Rightarrow> obj_store \<Rightarrow> (error + response) \<times> obj_store"

type_synonym middleware = "Context \<Rightarrow> obj_store \<Rightarrow> (error + Context) \<times> obj_store"

section \<open>Applications on the heap\<close>

text \<open>
  \<^verbatim>\<open>class App\<close> has the private fields \<^verbatim>\<open>#routes\<close> (a Map from path to a Map from
  method to handler) and \<^verbatim>\<open>#middlewares\<close> (an array), and the public field
  \<^verbatim>\<open>state\<close>. The two containers are objects: an application holds references to
  them, and \<^verbatim>\<open>withState\<close> copies the references. The heap therefore has a store of
  application objects, a store of route Maps, a store of middleware arrays and the
  store of plain objects; \<open>nxt\<close> is the next unused address. The inner Maps (method to
  handler) are created inside \<^verbatim>\<open>#addRoute\<close> and never escape the outer Map, so they
  are values nested in it. The public field \<^verbatim>\<open>state\<close> of the class is the field
  \<open>app_state\<close> here (\<open>state\<close> is the field of the context).
\<close>

type_synonym route_table = "string \<rightharpoonup> (string \<rightharpoonup> handler)"

record App =
  routes :: nat
  middlewares :: nat
  app_state :: jsval

record heap =
  apps :: "nat \<Rightarrow> App"
  routes_store :: "nat \<Rightarrow> route_table"
  mws_store :: "nat \<Rightarrow> middleware list"
  objects :: obj_store
  nxt :: nat

text \<open>
  \<^verbatim>\<open>new App()\<close>: the field initialisers allocate a fresh empty Map, a fresh empty
  array and a fresh empty state object \<^verbatim>\<open>{}\<close>. Each store has its own address
  space; the new application and its three objects take the address \<open>nxt\<close> in each.

  \<^verbatim>\<open>withState\<close> (lines 51 to 57): a new application, whose three fields are then
  overwritten with the two references of \<^verbatim>\<open>this\<close> and the value supplied. \<^verbatim>\<open>use\<close>
  pushes onto the array.
\<close>

definition new_App :: "heap \<Rightarrow> nat \<times> heap" where
  "new_App h =
     (let n = nxt h in
      (n, h\<lparr>apps := (apps h)(n := \<lparr>routes = n, middlewares = n, app_state = JRef n\<rparr>),
            routes_store := (routes_store h)(n := Map.empty),
            mws_store := (mws_store h)(n := []),
            objects := (objects h)(n := Map.empty),
            nxt := n + 1\<rparr>))"

definition withState :: "nat \<Rightarrow> jsval \<Rightarrow> heap \<Rightarrow> nat \<times> heap" where
  "withState this st h =
     (let (newApp, h1) = new_App h;
          h2 = h1\<lparr>apps := (apps h1)(newApp := (apps h1 newApp)\<lparr>routes := routes (apps h1 this)\<rparr>)\<rparr>;
          h3 = h2\<lparr>apps := (apps h2)(newApp := (apps h2 newApp)\<lparr>middlewares := middlewares (apps h2 this)\<rparr>)\<rparr>;
          h4 = h3\<lparr>apps := (apps h3)(newApp := (apps h3 newApp)\<lparr>app_state := st\<rparr>)\<rparr>
      in (newApp, h4))"

definition use :: "nat \<Rightarrow> middleware \<Rightarrow> heap \<Rightarrow> heap" where
  "use this mw h =
     (let m = middlewares (apps h this) in
      h\<lparr>mws_store := (mws_store h)(m := mws_store h m @ [mw])\<rparr>)"

text \<open>
  The statements of the host program that touch the public field (line 138 of the
  source, \<^verbatim>\<open>app.state.version = "1.0.0"\<close>): writing and reading a property of the
  state object, and assigning the field itself. A state that is not an object has no
  properties: the write is ignored or raises, and either way nothing is stored, and
  nothing is read. An object literal allocates a fresh object.
\<close>

definition state_set :: "nat \<Rightarrow> string \<Rightarrow> jsval \<Rightarrow> heap \<Rightarrow> heap" where
  "state_set this k v h =
     (case app_state (apps h this) of
        JRef a \<Rightarrow> h\<lparr>objects := (objects h)(a := (objects h a)(k \<mapsto> v))\<rparr>
      | _ \<Rightarrow> h)"

definition state_get :: "nat \<Rightarrow> string \<Rightarrow> heap \<Rightarrow> jsval option" where
  "state_get this k h =
     (case app_state (apps h this) of
        JRef a \<Rightarrow> objects h a k
      | _ \<Rightarrow> None)"

definition state_assign :: "nat \<Rightarrow> jsval \<Rightarrow> heap \<Rightarrow> heap" where
  "state_assign this v h = h\<lparr>apps := (apps h)(this := (apps h this)\<lparr>app_state := v\<rparr>)\<rparr>"

definition new_Object :: "obj \<Rightarrow> heap \<Rightarrow> nat \<times> heap" where
  "new_Object props h = (nxt h, h\<lparr>objects := (objects h)(nxt h := props), nxt := nxt h + 1\<rparr>)"

text \<open>
  An application of a heap is allocated when its address, the addresses of its two
  containers and the address of its state object (when the state is an object) are in
  use, that is, below \<open>nxt\<close>. \<^verbatim>\<open>new App()\<close> and \<^verbatim>\<open>withState\<close> return allocated
  applications.
\<close>

definition allocated :: "heap \<Rightarrow> nat \<Rightarrow> bool" where
  "allocated h this \<longleftrightarrow>
     this < nxt h \<and> routes (apps h this) < nxt h \<and> middlewares (apps h this) < nxt h \<and>
     (case app_state (apps h this) of JRef a \<Rightarrow> a < nxt h | _ \<Rightarrow> True)"

text \<open>
  \<^verbatim>\<open>#addRoute\<close> on the route Map: create the inner Map when the path has none, then
  set the handler under the method (the optional call \<^verbatim>\<open>?.set\<close> does nothing when
  the path is still absent).
\<close>

definition addRoute_table :: "string \<Rightarrow> string \<Rightarrow> handler \<Rightarrow> route_table \<Rightarrow> route_table" where
  "addRoute_table mth path hnd rs =
     (let rs1 = (if rs path = None then rs(path \<mapsto> Map.empty) else rs) in
      case rs1 path of
        None \<Rightarrow> rs1
      | Some inner \<Rightarrow> rs1(path \<mapsto> inner(mth \<mapsto> hnd)))"

definition addRoute :: "nat \<Rightarrow> string \<Rightarrow> string \<Rightarrow> handler \<Rightarrow> heap \<Rightarrow> heap" where
  "addRoute this mth path hnd h =
     (let r = routes (apps h this) in
      h\<lparr>routes_store := (routes_store h)(r := addRoute_table mth path hnd (routes_store h r))\<rparr>)"

definition get :: "nat \<Rightarrow> string \<Rightarrow> handler \<Rightarrow> heap \<Rightarrow> heap" where
  "get this path hnd h = addRoute this ''GET'' path hnd h"

definition post :: "nat \<Rightarrow> string \<Rightarrow> handler \<Rightarrow> heap \<Rightarrow> heap" where
  "post this path hnd h = addRoute this ''POST'' path hnd h"

definition put :: "nat \<Rightarrow> string \<Rightarrow> handler \<Rightarrow> heap \<Rightarrow> heap" where
  "put this path hnd h = addRoute this ''PUT'' path hnd h"

definition delete :: "nat \<Rightarrow> string \<Rightarrow> handler \<Rightarrow> heap \<Rightarrow> heap" where
  "delete this path hnd h = addRoute this ''DELETE'' path hnd h"

definition all :: "nat \<Rightarrow> string \<Rightarrow> handler \<Rightarrow> heap \<Rightarrow> heap" where
  "all this path hnd h =
     (let h1 = addRoute this ''GET'' path hnd h;
          h2 = addRoute this ''POST'' path hnd h1;
          h3 = addRoute this ''PUT'' path hnd h2
      in addRoute this ''DELETE'' path hnd h3)"

section \<open>Dispatch\<close>

text \<open>
  The observable steps of one dispatch, in the order they happen: the call of the
  middleware at a position of the pipeline, the lookup of a (path, method) pair in the
  route Map, the call of the handler found under a pair.
\<close>

datatype event = MiddlewareCalled nat | RouteLookup string string | HandlerCalled string string

text \<open>
  The loop \<^verbatim>\<open>for (const mw of this.#middlewares) await mw(c)\<close>, from position
  \<open>i\<close> of the array: an error raised by a middleware leaves the loop (and \<^verbatim>\<open>fetch\<close>).
\<close>

fun run_middlewares ::
  "middleware list \<Rightarrow> nat \<Rightarrow> Context \<Rightarrow> obj_store \<Rightarrow> event list \<times> (error + Context) \<times> obj_store" where
  "run_middlewares [] i c s = ([], Inr c, s)"
| "run_middlewares (mw # mws) i c s =
     (case mw c s of
        (Inl e, s1) \<Rightarrow> ([MiddlewareCalled i], Inl e, s1)
      | (Inr c1, s1) \<Rightarrow>
          (let (tr, r, s2) = run_middlewares mws (i + 1) c1 s1
           in (MiddlewareCalled i # tr, r, s2)))"

text \<open>
  Lines 109 to 111: \<^verbatim>\<open>route = this.#routes.get(path)\<close>, then
  \<^verbatim>\<open>route?.has(method)\<close> and \<^verbatim>\<open>route.get(method)!\<close>.
\<close>

definition find_handler :: "route_table \<Rightarrow> string \<Rightarrow> string \<Rightarrow> handler option" where
  "find_handler rs path mth =
     (case rs path of
        None \<Rightarrow> None
      | Some route \<Rightarrow> (if route mth \<noteq> None then Some (the (route mth)) else None))"

text \<open>
  \<^verbatim>\<open>fetch\<close>. The platform's URL parser is a parameter: \<open>pathname u\<close> is
  \<^verbatim>\<open>new URL(u).pathname\<close>, or \<open>None\<close> when the constructor throws. The result is the
  trace of the dispatch, the settled value of the returned promise (rejected with an
  error, or fulfilled with a response) and the heap left behind.
\<close>

definition fetch ::
  "(string \<Rightarrow> string option) \<Rightarrow> nat \<Rightarrow> heap \<Rightarrow> request \<Rightarrow> event list \<times> (error + response) \<times> heap" where
  "fetch pathname this h rq =
     (let c = \<lparr>req = rq, data = Map.empty, state = app_state (apps h this)\<rparr>;
          (tr, r, s) = run_middlewares (mws_store h (middlewares (apps h this))) 0 c (objects h)
      in case r of
           Inl e \<Rightarrow> (tr, Inl e, h\<lparr>objects := s\<rparr>)
         | Inr c1 \<Rightarrow>
             (case pathname (url rq) of
                None \<Rightarrow> (tr, Inl TypeError_Invalid_URL, h\<lparr>objects := s\<rparr>)
              | Some path \<Rightarrow>
                  (let mth = req_method rq in
                   case find_handler (routes_store h (routes (apps h this))) path mth of
                     Some hnd \<Rightarrow>
                       (let (r1, s1) = hnd c1 s
                        in (tr @ [RouteLookup path mth, HandlerCalled path mth], r1, h\<lparr>objects := s1\<rparr>))
                   | None \<Rightarrow>
                       (tr @ [RouteLookup path mth],
                        Inr (new_Response ''Not Found'' (Some 404) []),
                        h\<lparr>objects := s\<rparr>))))"

text \<open>
  What it means that the first \<open>k\<close> middleware of a pipeline complete, said of the
  middleware themselves: \<open>cs\<close> lists the context and the store before the first
  middleware and after each of the \<open>k\<close>, and each middleware, called on the context
  and the store the one before it left, returns without raising and leaves the next.
\<close>

definition steps_complete :: "middleware list \<Rightarrow> nat \<Rightarrow> (Context \<times> obj_store) list \<Rightarrow> bool" where
  "steps_complete mws k cs \<longleftrightarrow>
     k \<le> length mws \<and> length cs = Suc k \<and>
     (\<forall>i<k. (mws ! i) (fst (cs ! i)) (snd (cs ! i)) = (Inr (fst (cs ! Suc i)), snd (cs ! Suc i)))"

section \<open>Dispatch with the scratch object in the store\<close>














section \<open>Sample values\<close>

text \<open>
  Concrete applications, middleware, handlers and requests at which the theorems below
  are exercised.

  \<open>local_pathname\<close> gives the value of \<^verbatim>\<open>new URL(u).pathname\<close> on two families of
  strings, and is used on no other. A string without a colon has no scheme and there is
  no base URL, so the constructor throws: \<open>None\<close>. A string made of
  \<^verbatim>\<open>http://localhost\<close>, then nothing or a path that starts with a slash and consists
  of letters, digits, slashes, hyphens, underscores and tildes (so it has no dot segment
  and nothing to percent-encode), then an optional query or fragment, is one of the
  URLs the example server of the source builds (line 176): its pathname is that path,
  or \<^verbatim>\<open>/\<close> when the path is empty. On every other string (another scheme or host, a
  port, dots, characters that are encoded) the platform's value is not modelled; the
  function answers \<open>None\<close> there only to be total.
\<close>

definition path_char :: "char \<Rightarrow> bool" where
  "path_char ch \<longleftrightarrow>
     ch \<in> set ''/-_~0123456789abcdefghijklmnopqrstuvwxyzABCDEFGHIJKLMNOPQRSTUVWXYZ''"

definition local_pathname :: "string \<Rightarrow> string option" where
  "local_pathname u =
     (if CHR '':'' \<notin> set u then None
      else if take 16 u = ''http://localhost'' then
        (let p = takeWhile (\<lambda>ch. ch \<noteq> CHR ''?'' \<and> ch \<noteq> CHR ''#'') (drop 16 u)
         in case p of
              [] \<Rightarrow> Some ''/''
            | ch # cs \<Rightarrow> (if ch = CHR ''/'' \<and> list_all path_char p then Some p else None))
      else None)"

definition empty_heap :: heap where
  "empty_heap =
     \<lparr>apps = (\<lambda>a. \<lparr>routes = 0, middlewares = 0, app_state = JUndefined\<rparr>),
      routes_store = (\<lambda>a. Map.empty),
      mws_store = (\<lambda>a. []),
      objects = (\<lambda>a. Map.empty),
      nxt = 0\<rparr>"

definition mw_mark :: middleware where
  "mw_mark c s = (Inr (c\<lparr>data := (data c)(''t'' \<mapsto> JNum 1)\<rparr>), s)"

definition mw_count :: middleware where
  "mw_count c s =
     (case state c of
        JRef a \<Rightarrow> (Inr c, s(a := (s a)(''hits'' \<mapsto> JNum 1)))
      | _ \<Rightarrow> (Inr c, s))"

definition mw_throw :: middleware where
  "mw_throw c s = (Inl (Thrown (JStr ''boom'')), s)"

definition h_hi :: handler where
  "h_hi c s = (Inr (new_Response ''hi'' None []), s)"

definition h_users :: handler where
  "h_users c s =
     (Inr (new_Response ''users'' (Some 201) [(''Content-Type'', ''application/json'')]), s)"

definition h_seen :: handler where
  "h_seen c s =
     (Inr (new_Response (if data c ''t'' = Some (JNum 1) then ''marked'' else ''unmarked'') None []), s)"

definition h_fail :: handler where
  "h_fail c s = (Inl (Thrown (JStr ''handler failed'')), s)"

definition mk_request :: "string \<Rightarrow> string \<Rightarrow> request" where
  "mk_request m u = \<lparr>url = u, req_method = m, req_body = []\<rparr>"

text \<open>An application with no middleware and no route, at address 0.\<close>

definition heap0 :: heap where
  "heap0 = snd (new_App empty_heap)"

text \<open>
  The application at address 0 after \<^verbatim>\<open>app.use(mw_mark); app.get("/users", h_users)\<close>,
  and after \<^verbatim>\<open>app.use(mw_throw); app.get("/", h_hi)\<close>.
\<close>

definition heap_users :: heap where
  "heap_users = get 0 ''/users'' h_users (use 0 mw_mark heap0)"

definition heap_failing :: heap where
  "heap_failing = get 0 ''/'' h_hi (use 0 mw_throw heap0)"

text \<open>
  \<^verbatim>\<open>app.use(mw_mark); app.all("/x", h_seen)\<close>, and the same registration behind a
  middleware that raises.
\<close>

definition heap_all :: heap where
  "heap_all = all 0 ''/x'' h_seen (use 0 mw_mark heap0)"

definition heap_all_failing :: heap where
  "heap_all_failing = all 0 ''/x'' h_hi (use 0 mw_throw heap0)"

text \<open>
  A pipeline of three middleware whose second raises, a pipeline of two that complete,
  and a route whose handler raises.
\<close>

definition heap_mark_throw :: heap where
  "heap_mark_throw = get 0 ''/'' h_hi (use 0 mw_mark (use 0 mw_throw (use 0 mw_count heap0)))"

definition heap_handler_fails :: heap where
  "heap_handler_fails = get 0 ''/'' h_fail (use 0 mw_mark heap0)"

definition heap_two :: heap where
  "heap_two = use 0 mw_mark (use 0 mw_count heap0)"

text \<open>
  The set-up of the source's example (line 124): a state object
  \<^verbatim>\<open>{ version: "" }\<close> is allocated and the application is rebound to it. In
  \<open>heap_aliased\<close> an application is rebound to its own state object instead.
\<close>

definition heap_version :: heap where
  "heap_version = snd (new_Object [''version'' \<mapsto> JStr ''''] heap_users)"

definition heap_rebound :: heap where
  "heap_rebound = snd (withState 0 (JRef 1) heap_version)"

definition heap_aliased :: heap where
  "heap_aliased = snd (withState 0 (app_state (apps heap0 0)) heap0)"

text \<open>
  \<^verbatim>\<open>GET /users\<close> registered twice, and \<^verbatim>\<open>GET /\<close> registered twice behind a
  middleware that raises.
\<close>

definition heap_twice :: heap where
  "heap_twice = addRoute 0 ''GET'' ''/users'' h_users (addRoute 0 ''GET'' ''/users'' h_hi (use 0 mw_mark heap0))"

definition heap_twice_failing :: heap where
  "heap_twice_failing = addRoute 0 ''GET'' ''/'' h_users (addRoute 0 ''GET'' ''/'' h_hi (use 0 mw_throw heap0))"











section \<open>Evaluation of the sample values\<close>

lemma local_pathname_values:
  "local_pathname ''http://localhost'' = Some ''/''"
  "local_pathname ''http://localhost/'' = Some ''/''"
  "local_pathname ''http://localhost/x'' = Some ''/x''"
  "local_pathname ''http://localhost/users'' = Some ''/users''"
  "local_pathname ''http://localhost/users/'' = Some ''/users/''"
  "local_pathname ''http://localhost/Users'' = Some ''/Users''"
  "local_pathname ''http://localhost/users?id=7'' = Some ''/users''"
  "local_pathname ''http://localhost/missing'' = Some ''/missing''"
  "local_pathname ''http://localhost/nowhere'' = Some ''/nowhere''"
  "local_pathname ''/users'' = None"
  by (simp_all add: local_pathname_def path_char_def)

lemmas sample_defs =
  heap0_def new_App_def empty_heap_def get_def use_def
  addRoute_def addRoute_table_def mk_request_def local_pathname_values find_handler_def
  new_Response_def Let_def

section \<open>The branches of fetch\<close>

lemma fetch_middleware_error:
  assumes "run_middlewares (mws_store h (middlewares (apps h this))) 0
             \<lparr>req = rq, data = Map.empty, state = app_state (apps h this)\<rparr> (objects h) = (tr, Inl e, s)"
  shows "fetch pathname this h rq = (tr, Inl e, h\<lparr>objects := s\<rparr>)"
  using assms by (simp add: fetch_def Let_def)

section \<open>Properties of the route Map\<close>

lemma addRoute_table_twice:
  "addRoute_table mth path h2 (addRoute_table mth path h1 rs) = addRoute_table mth path h2 rs"
  by (auto simp: addRoute_table_def split: option.splits)

lemma find_handler_addRoute_table_same:
  "find_handler (addRoute_table mth path hnd rs) path mth = Some hnd"
  by (auto simp: find_handler_def addRoute_table_def split: option.splits)

lemma find_handler_addRoute_table_other:
  "(path', mth') \<noteq> (path, mth) \<Longrightarrow>
     find_handler (addRoute_table mth path hnd rs) path' mth' = find_handler rs path' mth'"
  by (auto simp: find_handler_def addRoute_table_def split: option.splits)

lemma addRoute_twice:
  "addRoute this mth path h2 (addRoute this mth path h1 h) = addRoute this mth path h2 h"
  by (simp add: addRoute_def Let_def addRoute_table_twice)

lemma routes_store_addRoute:
  "routes_store (addRoute this mth path hnd h) r =
     (if r = routes (apps h this) then addRoute_table mth path hnd (routes_store h r)
      else routes_store h r)"
  by (simp add: addRoute_def Let_def)

lemma addRoute_frame [simp]:
  "apps (addRoute this mth path hnd h) = apps h"
  "mws_store (addRoute this mth path hnd h) = mws_store h"
  "objects (addRoute this mth path hnd h) = objects h"
  "nxt (addRoute this mth path hnd h) = nxt h"
  by (simp_all add: addRoute_def Let_def)

lemma find_handler_addRoute_other:
  "(path', mth') \<noteq> (path, mth) \<Longrightarrow>
     find_handler (routes_store (addRoute this mth path hnd h) r) path' mth' =
     find_handler (routes_store h r) path' mth'"
  by (simp add: routes_store_addRoute find_handler_addRoute_table_other del: prod.inject)

lemma all_frame [simp]:
  "apps (all this path hnd h) = apps h"
  "mws_store (all this path hnd h) = mws_store h"
  "objects (all this path hnd h) = objects h"
  "nxt (all this path hnd h) = nxt h"
  by (simp_all add: all_def Let_def)

lemma find_handler_all:
  "mth \<in> {''GET'', ''POST'', ''PUT'', ''DELETE''} \<Longrightarrow>
     find_handler (routes_store (all this path hnd h) (routes (apps h this))) path mth = Some hnd"
  unfolding all_def Let_def
  by (auto simp: routes_store_addRoute find_handler_addRoute_table_same find_handler_addRoute_table_other)

lemma use_frame [simp]:
  "apps (use this mw h) = apps h"
  "routes_store (use this mw h) = routes_store h"
  "objects (use this mw h) = objects h"
  "nxt (use this mw h) = nxt h"
  by (simp_all add: use_def Let_def)

lemma mws_store_use:
  "mws_store (use this mw h) m =
     (if m = middlewares (apps h this) then mws_store h m @ [mw] else mws_store h m)"
  by (simp add: use_def Let_def)

lemma find_handler_eq:
  "find_handler rs path mth = (case rs path of None \<Rightarrow> None | Some inner \<Rightarrow> inner mth)"
  by (auto simp: find_handler_def split: option.splits)

section \<open>The middleware loop\<close>

lemma run_middlewares_trace:
  "run_middlewares mws i c s = (tr, r, s1) \<Longrightarrow>
     \<exists>n\<le>length mws. tr = map MiddlewareCalled [i..<i + n] \<and>
        (case r of Inr c1 \<Rightarrow> n = length mws | Inl e \<Rightarrow> 0 < n)"
proof (induction mws arbitrary: i c s tr r s1)
  case Nil
  then show ?case by auto
next
  case (Cons mw mws)
  show ?case
  proof (cases "mw c s")
    case (Pair out s')
    show ?thesis
    proof (cases out)
      case (Inl e)
      with Pair Cons.prems have "tr = map MiddlewareCalled [i..<i + 1]" "r = Inl e" by auto
      then show ?thesis by (intro exI[of _ 1]) simp
    next
      case (Inr c')
      obtain tr' r' s'' where rec: "run_middlewares mws (i + 1) c' s' = (tr', r', s'')"
        by (cases "run_middlewares mws (i + 1) c' s'") auto
      from Cons.IH[OF rec] obtain n where n: "n \<le> length mws"
        "tr' = map MiddlewareCalled [i + 1..<i + 1 + n]"
        "case r' of Inr c1 \<Rightarrow> n = length mws | Inl e \<Rightarrow> 0 < n" by blast
      from Pair Inr rec Cons.prems have tr: "tr = MiddlewareCalled i # tr'" and r: "r = r'" by auto
      have "tr = map MiddlewareCalled [i..<i + Suc n]"
        using tr n(2) by (simp add: upt_rec[of i])
      with n(1,3) r show ?thesis by (intro exI[of _ "Suc n"]) (auto split: sum.splits)
    qed
  qed
qed

lemma run_middlewares_completed:
  assumes "run_middlewares mws 0 c s = (tr, Inr c1, s1)"
  shows "tr = map MiddlewareCalled [0..<length mws]"
  using run_middlewares_trace[OF assms] by auto

lemma run_middlewares_failed:
  assumes "run_middlewares mws 0 c s = (tr, Inl e, s1)"
  shows "\<exists>k<length mws. tr = map MiddlewareCalled [0..<Suc k]"
proof -
  from run_middlewares_trace[OF assms] obtain n where
    n: "n \<le> length mws" "tr = map MiddlewareCalled [0..<0 + n]" "0 < n" by auto
  then have "n - 1 < length mws \<and> tr = map MiddlewareCalled [0..<Suc (n - 1)]" by simp
  then show ?thesis by blast
qed

lemma run_middlewares_snoc:
  "run_middlewares (mws @ [mw]) i c s =
     (case run_middlewares mws i c s of
        (tr, Inl e, s1) \<Rightarrow> (tr, Inl e, s1)
      | (tr, Inr c1, s1) \<Rightarrow> (tr @ [MiddlewareCalled (i + length mws)], mw c1 s1))"
proof (induction mws arbitrary: i c s)
  case Nil
  show ?case by (cases "mw c s") (auto split: sum.splits)
next
  case (Cons m mws)
  show ?case
  proof (cases "m c s")
    case (Pair out s')
    then show ?thesis
    proof (cases out)
      case (Inl e)
      with Pair show ?thesis by simp
    next
      case (Inr c')
      with Pair Cons.IH[of "i + 1" c' s'] show ?thesis
        by (cases "run_middlewares mws (i + 1) c' s'") (auto split: sum.splits prod.splits)
    qed
  qed
qed

lemma steps_complete_tl:
  assumes "steps_complete (m # ms) (Suc k) cs"
  shows "steps_complete ms k (tl cs)"
    and "m (fst (cs ! 0)) (snd (cs ! 0)) = (Inr (fst (tl cs ! 0)), snd (tl cs ! 0))"
proof -
  from assms obtain x cs' where cs: "cs = x # cs'" and len: "length cs' = Suc k"
    by (cases cs) (auto simp: steps_complete_def)
  from assms have st: "\<And>i. i < Suc k \<Longrightarrow>
      ((m # ms) ! i) (fst (cs ! i)) (snd (cs ! i)) = (Inr (fst (cs ! Suc i)), snd (cs ! Suc i))"
    and k: "Suc k \<le> length (m # ms)"
    by (simp_all add: steps_complete_def)
  show "steps_complete ms k (tl cs)"
    unfolding steps_complete_def
  proof (intro conjI allI impI)
    show "k \<le> length ms" using k by simp
    show "length (tl cs) = Suc k" using cs len by simp
    fix i assume "i < k"
    then have "((m # ms) ! Suc i) (fst (cs ! Suc i)) (snd (cs ! Suc i)) =
                 (Inr (fst (cs ! Suc (Suc i))), snd (cs ! Suc (Suc i)))"
      using st[of "Suc i"] by simp
    then show "(ms ! i) (fst (tl cs ! i)) (snd (tl cs ! i)) =
                 (Inr (fst (tl cs ! Suc i)), snd (tl cs ! Suc i))"
      using cs by simp
  qed
  show "m (fst (cs ! 0)) (snd (cs ! 0)) = (Inr (fst (tl cs ! 0)), snd (tl cs ! 0))"
    using st[of 0] cs by simp
qed

lemma run_middlewares_steps:
  assumes "steps_complete mws k cs"
  shows "(k = length mws \<longrightarrow>
            run_middlewares mws j (fst (cs ! 0)) (snd (cs ! 0)) =
              (map MiddlewareCalled [j..<j + k], Inr (fst (cs ! k)), snd (cs ! k))) \<and>
         (k < length mws \<and> (mws ! k) (fst (cs ! k)) (snd (cs ! k)) = (Inl e, s) \<longrightarrow>
            run_middlewares mws j (fst (cs ! 0)) (snd (cs ! 0)) =
              (map MiddlewareCalled [j..<j + Suc k], Inl e, s))"
  using assms
proof (induction mws arbitrary: k cs j)
  case Nil
  then show ?case by (simp add: steps_complete_def)
next
  case (Cons m ms)
  show ?case
  proof (cases k)
    case 0
    then show ?thesis by (auto simp: upt_rec[of j])
  next
    case (Suc k')
    with Cons.prems have sc: "steps_complete (m # ms) (Suc k') cs" by simp
    note tl = steps_complete_tl[OF sc]
    from sc obtain x cs' where cs: "cs = x # cs'" by (cases cs) (auto simp: steps_complete_def)
    have nth: "cs ! k = tl cs ! k'" using cs Suc by simp
    from Cons.IH[OF tl(1), of "j + 1"]
    have ih1: "k' = length ms \<Longrightarrow>
        run_middlewares ms (j + 1) (fst (tl cs ! 0)) (snd (tl cs ! 0)) =
          (map MiddlewareCalled [j + 1..<j + 1 + k'], Inr (fst (tl cs ! k')), snd (tl cs ! k'))"
      and ih2: "k' < length ms \<Longrightarrow> (ms ! k') (fst (tl cs ! k')) (snd (tl cs ! k')) = (Inl e, s) \<Longrightarrow>
        run_middlewares ms (j + 1) (fst (tl cs ! 0)) (snd (tl cs ! 0)) =
          (map MiddlewareCalled [j + 1..<j + 1 + Suc k'], Inl e, s)"
      by simp_all
    have u1: "[j..<j + k] = j # [j + 1..<j + 1 + k']" using Suc by (simp add: upt_rec[of j])
    have u2: "[j..<j + Suc k] = j # [j + 1..<j + 1 + Suc k']" using Suc by (simp add: upt_rec[of j])
    show ?thesis
    proof (intro conjI impI)
      assume "k = length (m # ms)"
      then have "k' = length ms" using Suc by simp
      from ih1[OF this] tl(2) show "run_middlewares (m # ms) j (fst (cs ! 0)) (snd (cs ! 0)) =
              (map MiddlewareCalled [j..<j + k], Inr (fst (cs ! k)), snd (cs ! k))"
        unfolding u1 nth by simp
    next
      assume a: "k < length (m # ms) \<and> ((m # ms) ! k) (fst (cs ! k)) (snd (cs ! k)) = (Inl e, s)"
      then have "k' < length ms" "(ms ! k') (fst (tl cs ! k')) (snd (tl cs ! k')) = (Inl e, s)"
        using Suc nth by simp_all
      from ih2[OF this] tl(2) show "run_middlewares (m # ms) j (fst (cs ! 0)) (snd (cs ! 0)) =
              (map MiddlewareCalled [j..<j + Suc k], Inl e, s)"
        unfolding u2 by simp
    qed
  qed
qed

lemma run_middlewares_completes:
  assumes "steps_complete mws k cs" and "cs ! 0 = (c, s0)" and "k = length mws"
  shows "run_middlewares mws 0 c s0 = (map MiddlewareCalled [0..<k], Inr (fst (cs ! k)), snd (cs ! k))"
  using run_middlewares_steps[OF assms(1), where j = 0] assms(2,3) by auto

lemma run_middlewares_raises:
  assumes "steps_complete mws k cs" and "cs ! 0 = (c, s0)" and "k < length mws"
    and "(mws ! k) (fst (cs ! k)) (snd (cs ! k)) = (Inl e, s)"
  shows "run_middlewares mws 0 c s0 = (map MiddlewareCalled [0..<Suc k], Inl e, s)"
  using run_middlewares_steps[OF assms(1), where j = 0 and e = e and s = s] assms(2,3,4) by auto

section \<open>Rebinding the state\<close>

lemma withState_result:
  "withState this st h =
     (nxt h,
      h\<lparr>apps := (apps h)(nxt h :=
              \<lparr>routes = (if this = nxt h then nxt h else routes (apps h this)),
               middlewares = (if this = nxt h then nxt h else middlewares (apps h this)),
               app_state = st\<rparr>),
        routes_store := (routes_store h)(nxt h := Map.empty),
        mws_store := (mws_store h)(nxt h := []),
        objects := (objects h)(nxt h := Map.empty),
        nxt := nxt h + 1\<rparr>)"
  by (simp add: withState_def new_App_def Let_def)

lemma new_App_allocated: "allocated (snd (new_App h)) (fst (new_App h))"
  by (simp add: new_App_def allocated_def Let_def)

lemma withState_allocated:
  assumes "allocated h this" and "case st of JRef a \<Rightarrow> a < nxt h | _ \<Rightarrow> True"
  shows "allocated (snd (withState this st h)) (fst (withState this st h))"
    and "allocated (snd (withState this st h)) this"
  using assms by (auto simp: withState_result allocated_def split: jsval.splits)

section \<open>Runs of the sample pipelines\<close>

lemma heap_users_run:
  "run_middlewares (mws_store heap_users (middlewares (apps heap_users 0))) 0
     \<lparr>req = r, data = Map.empty, state = app_state (apps heap_users 0)\<rparr> (objects heap_users)
   = ([MiddlewareCalled 0], Inr \<lparr>req = r, data = [''t'' \<mapsto> JNum 1], state = JRef 0\<rparr>, objects heap_users)"
  by (simp add: heap_users_def sample_defs mw_mark_def)

section \<open>Steps of interleaved calls\<close>











section \<open>Dispatch of a registered route\<close>

text \<open>
  C1 (as amended). For every application and every (path, method, handler) triple held
  by its route Map, a call of \<^verbatim>\<open>fetch\<close> with a request whose URL has that pathname
  and whose method is that method, in which every middleware completes without raising,
  calls that handler with the context as the middleware left it and with the object
  store as they left it, and settles with exactly what the handler produced: its
  response (status, headers and body as they are) and the store it left behind.
\<close>

theorem registered_route_returns_handler_result:
  assumes "routes_store h (routes (apps h this)) path = Some inner"
    and "inner mth = Some hnd"
    and "pathname (url rq) = Some path"
    and "req_method rq = mth"
    and "run_middlewares (mws_store h (middlewares (apps h this))) 0
           \<lparr>req = rq, data = Map.empty, state = app_state (apps h this)\<rparr> (objects h) = (tr, Inr c1, s)"
    and "hnd c1 s = (res, s1)"
  shows "fetch pathname this h rq =
           (tr @ [RouteLookup path mth, HandlerCalled path mth], res, h\<lparr>objects := s1\<rparr>)"
  using assms by (simp add: fetch_def find_handler_def Let_def)

theorem registered_route_returns_handler_result_witness:
  "routes_store heap_users (routes (apps heap_users 0)) ''/users'' = Some [''GET'' \<mapsto> h_users] \<and>
   [''GET'' \<mapsto> h_users] ''GET'' = Some h_users \<and>
   local_pathname (url (mk_request ''GET'' ''http://localhost/users?id=7'')) = Some ''/users'' \<and>
   req_method (mk_request ''GET'' ''http://localhost/users?id=7'') = ''GET'' \<and>
   fetch local_pathname 0 heap_users (mk_request ''GET'' ''http://localhost/users?id=7'') =
     ([MiddlewareCalled 0, RouteLookup ''/users'' ''GET'', HandlerCalled ''/users'' ''GET''],
      Inr \<lparr>status = 201, headers = [(''Content-Type'', ''application/json'')], body = ''users''\<rparr>,
      heap_users)"
proof -
  let ?rq = "mk_request ''GET'' ''http://localhost/users?id=7''"
  let ?c1 = "\<lparr>req = ?rq, data = [''t'' \<mapsto> JNum 1], state = JRef 0\<rparr>"
  have a1: "routes_store heap_users (routes (apps heap_users 0)) ''/users'' = Some [''GET'' \<mapsto> h_users]"
    by (simp add: heap_users_def sample_defs)
  have a2: "[''GET'' \<mapsto> h_users] ''GET'' = Some h_users" by simp
  have a3: "local_pathname (url ?rq) = Some ''/users''" by (simp add: sample_defs)
  have a4: "req_method ?rq = ''GET''" by (simp add: sample_defs)
  have a5: "run_middlewares (mws_store heap_users (middlewares (apps heap_users 0))) 0
              \<lparr>req = ?rq, data = Map.empty, state = app_state (apps heap_users 0)\<rparr> (objects heap_users)
            = ([MiddlewareCalled 0], Inr ?c1, objects heap_users)"
    by (simp add: heap_users_def sample_defs mw_mark_def)
  have a6: "h_users ?c1 (objects heap_users) =
              (Inr \<lparr>status = 201, headers = [(''Content-Type'', ''application/json'')], body = ''users''\<rparr>,
               objects heap_users)"
    by (simp add: h_users_def new_Response_def)
  from registered_route_returns_handler_result
         [where pathname = local_pathname and h = heap_users and this = 0 and rq = ?rq
            and path = "''/users''" and inner = "[''GET'' \<mapsto> h_users]" and mth = "''GET''"
            and hnd = h_users and tr = "[MiddlewareCalled 0]" and ?c1.0 = ?c1
            and s = "objects heap_users"
            and res = "Inr \<lparr>status = 201, headers = [(''Content-Type'', ''application/json'')], body = ''users''\<rparr>"
            and ?s1.0 = "objects heap_users", OF a1 a2 a3 a4 a5 a6]
    a1 a2 a3 a4
  show ?thesis by simp
qed

text \<open>
  The claim without the proviso fails: with a middleware that raises in the pipeline,
  a request for the registered pair \<^verbatim>\<open>GET /\<close> is rejected with the middleware's
  error and the handler is never called.
\<close>

theorem registered_route_failing_middleware_counterexample:
  "routes_store heap_failing (routes (apps heap_failing 0)) ''/'' = Some [''GET'' \<mapsto> h_hi] \<and>
   local_pathname (url (mk_request ''GET'' ''http://localhost/'')) = Some ''/'' \<and>
   req_method (mk_request ''GET'' ''http://localhost/'') = ''GET'' \<and>
   fetch local_pathname 0 heap_failing (mk_request ''GET'' ''http://localhost/'') =
     ([MiddlewareCalled 0], Inl (Thrown (JStr ''boom'')), heap_failing)"
  by (simp add: heap_failing_def sample_defs fetch_def mw_throw_def)

section \<open>Dispatch of an unregistered route\<close>

text \<open>
  C2 (as amended). For every request whose URL parses and whose (path, method) pair has
  no handler in the route Map, a call of \<^verbatim>\<open>fetch\<close> in which every middleware
  completes without raising is fulfilled (not rejected) with the response of status
  404, body \<^verbatim>\<open>Not Found\<close> and no headers, whatever the middleware did to the context
  and to the object store.
\<close>

theorem unregistered_route_returns_404:
  assumes "case routes_store h (routes (apps h this)) path of
             None \<Rightarrow> True | Some inner \<Rightarrow> inner (req_method rq) = None"
    and "pathname (url rq) = Some path"
    and "run_middlewares (mws_store h (middlewares (apps h this))) 0
           \<lparr>req = rq, data = Map.empty, state = app_state (apps h this)\<rparr> (objects h) = (tr, Inr c1, s)"
  shows "fetch pathname this h rq =
           (tr @ [RouteLookup path (req_method rq)],
            Inr \<lparr>status = 404, headers = [], body = ''Not Found''\<rparr>,
            h\<lparr>objects := s\<rparr>)"
  using assms
  by (simp add: fetch_def find_handler_def new_Response_def Let_def split: option.splits)

theorem unregistered_route_returns_404_witness:
  "(case routes_store heap_users (routes (apps heap_users 0)) ''/users'' of
      None \<Rightarrow> True
    | Some inner \<Rightarrow> inner (req_method (mk_request ''POST'' ''http://localhost/users'')) = None) \<and>
   local_pathname (url (mk_request ''POST'' ''http://localhost/users'')) = Some ''/users'' \<and>
   fetch local_pathname 0 heap_users (mk_request ''POST'' ''http://localhost/users'') =
     ([MiddlewareCalled 0, RouteLookup ''/users'' ''POST''],
      Inr \<lparr>status = 404, headers = [], body = ''Not Found''\<rparr>,
      heap_users)"
proof -
  let ?rq = "mk_request ''POST'' ''http://localhost/users''"
  let ?c1 = "\<lparr>req = ?rq, data = [''t'' \<mapsto> JNum 1], state = JRef 0\<rparr>"
  have a1: "case routes_store heap_users (routes (apps heap_users 0)) ''/users'' of
              None \<Rightarrow> True | Some inner \<Rightarrow> inner (req_method ?rq) = None"
    by (simp add: heap_users_def sample_defs)
  have a2: "local_pathname (url ?rq) = Some ''/users''" by (simp add: sample_defs)
  have a3: "run_middlewares (mws_store heap_users (middlewares (apps heap_users 0))) 0
              \<lparr>req = ?rq, data = Map.empty, state = app_state (apps heap_users 0)\<rparr> (objects heap_users)
            = ([MiddlewareCalled 0], Inr ?c1, objects heap_users)"
    by (simp add: heap_users_def sample_defs mw_mark_def)
  from unregistered_route_returns_404
         [where pathname = local_pathname and h = heap_users and this = 0 and rq = ?rq
            and path = "''/users''" and tr = "[MiddlewareCalled 0]" and ?c1.0 = ?c1
            and s = "objects heap_users", OF a1 a2 a3]
    a1 a2
  show ?thesis by (simp add: mk_request_def)
qed

text \<open>
  The claim without the proviso fails: with a middleware that raises in the pipeline,
  a request for the unregistered pair \<^verbatim>\<open>GET /missing\<close> is rejected with the
  middleware's error instead of being answered with 404.
\<close>

theorem unregistered_route_failing_middleware_counterexample:
  "(case routes_store heap_failing (routes (apps heap_failing 0)) ''/missing'' of
      None \<Rightarrow> True
    | Some inner \<Rightarrow> inner (req_method (mk_request ''GET'' ''http://localhost/missing'')) = None) \<and>
   local_pathname (url (mk_request ''GET'' ''http://localhost/missing'')) = Some ''/missing'' \<and>
   fetch local_pathname 0 heap_failing (mk_request ''GET'' ''http://localhost/missing'') =
     ([MiddlewareCalled 0], Inl (Thrown (JStr ''boom'')), heap_failing)"
  by (simp add: heap_failing_def sample_defs fetch_def mw_throw_def)

section \<open>Registration\<close>

text \<open>
  C6 (as amended). The route Map holds at most one handler for a (path, method) pair (a
  lookup has one result), and registering a handler for a pair that has one replaces it
  silently: the lookup of the pair gives the latest handler, the heap is the one in
  which the earlier handler was never registered, and a dispatch of a request for the
  pair after the re-registration, in which every middleware completes without raising,
  calls the latest handler and settles with its result.
\<close>

theorem reregistration_replaces_handler:
  "find_handler
     (routes_store (addRoute this mth path h2 (addRoute this mth path h1 h)) (routes (apps h this)))
     path mth = Some h2 \<and>
   addRoute this mth path h2 (addRoute this mth path h1 h) = addRoute this mth path h2 h \<and>
   (req_method rq = mth \<and> pathname (url rq) = Some path \<and>
    run_middlewares
      (mws_store (addRoute this mth path h2 (addRoute this mth path h1 h))
         (middlewares (apps (addRoute this mth path h2 (addRoute this mth path h1 h)) this))) 0
      \<lparr>req = rq, data = Map.empty,
         state = app_state (apps (addRoute this mth path h2 (addRoute this mth path h1 h)) this)\<rparr>
      (objects (addRoute this mth path h2 (addRoute this mth path h1 h))) = (tr, Inr c1, s) \<and>
    h2 c1 s = (res, s1) \<longrightarrow>
      fetch pathname this (addRoute this mth path h2 (addRoute this mth path h1 h)) rq =
        (tr @ [RouteLookup path mth, HandlerCalled path mth], res,
         (addRoute this mth path h2 (addRoute this mth path h1 h))\<lparr>objects := s1\<rparr>))"
proof (intro conjI impI)
  show f: "find_handler
     (routes_store (addRoute this mth path h2 (addRoute this mth path h1 h)) (routes (apps h this)))
     path mth = Some h2"
    by (simp add: routes_store_addRoute find_handler_addRoute_table_same)
  show "addRoute this mth path h2 (addRoute this mth path h1 h) = addRoute this mth path h2 h"
    by (rule addRoute_twice)
  let ?H = "addRoute this mth path h2 (addRoute this mth path h1 h)"
  assume a: "req_method rq = mth \<and> pathname (url rq) = Some path \<and>
    run_middlewares (mws_store ?H (middlewares (apps ?H this))) 0
      \<lparr>req = rq, data = Map.empty, state = app_state (apps ?H this)\<rparr> (objects ?H) = (tr, Inr c1, s) \<and>
    h2 c1 s = (res, s1)"
  then have r: "run_middlewares (mws_store ?H (middlewares (apps ?H this))) 0
      \<lparr>req = rq, data = Map.empty, state = app_state (apps ?H this)\<rparr> (objects ?H) = (tr, Inr c1, s)"
    and p: "pathname (url rq) = Some path" and m: "req_method rq = mth" and q: "h2 c1 s = (res, s1)"
    by blast+
  have f': "find_handler (routes_store ?H (routes (apps ?H this))) path (req_method rq) = Some h2"
    using f m by simp
  show "fetch pathname this ?H rq =
        (tr @ [RouteLookup path mth, HandlerCalled path mth], res, ?H\<lparr>objects := s1\<rparr>)"
    using r p f' q m by (simp add: fetch_def Let_def)
qed

theorem reregistration_replaces_handler_witness:
  "find_handler (routes_store heap_twice (routes (apps heap_twice 0))) ''/users'' ''GET'' = Some h_users \<and>
   local_pathname (url (mk_request ''GET'' ''http://localhost/users'')) = Some ''/users'' \<and>
   fetch local_pathname 0 heap_twice (mk_request ''GET'' ''http://localhost/users'') =
     ([MiddlewareCalled 0, RouteLookup ''/users'' ''GET'', HandlerCalled ''/users'' ''GET''],
      Inr \<lparr>status = 201, headers = [(''Content-Type'', ''application/json'')], body = ''users''\<rparr>,
      heap_twice)"
proof -
  let ?rq = "mk_request ''GET'' ''http://localhost/users''"
  let ?c1 = "\<lparr>req = ?rq, data = [''t'' \<mapsto> JNum 1], state = JRef 0\<rparr>"
  let ?res = "Inr \<lparr>status = 201, headers = [(''Content-Type'', ''application/json'')], body = ''users''\<rparr>
                :: error + response"
  have a1: "req_method ?rq = ''GET''" by (simp add: mk_request_def)
  have a2: "local_pathname (url ?rq) = Some ''/users''" by (simp add: sample_defs)
  have a3: "run_middlewares (mws_store heap_twice (middlewares (apps heap_twice 0))) 0
      \<lparr>req = ?rq, data = Map.empty, state = app_state (apps heap_twice 0)\<rparr>
      (objects heap_twice) = ([MiddlewareCalled 0], Inr ?c1, objects heap_twice)"
    by (simp add: heap_twice_def sample_defs mw_mark_def)
  have a4: "h_users ?c1 (objects heap_twice) = (?res, objects heap_twice)"
    by (simp add: h_users_def new_Response_def)
  have a5: "routes (apps (use 0 mw_mark heap0) 0) = routes (apps heap_twice 0)"
    by (simp add: heap_twice_def)
  from reregistration_replaces_handler
         [where this = 0 and mth = "''GET''" and path = "''/users''" and ?h1.0 = h_hi and ?h2.0 = h_users
            and h = "use 0 mw_mark heap0" and rq = ?rq and pathname = local_pathname
            and tr = "[MiddlewareCalled 0]" and ?c1.0 = ?c1 and s = "objects heap_twice"
            and res = ?res and ?s1.0 = "objects heap_twice", folded heap_twice_def]
    a1 a2 a3 a4 a5
  show ?thesis by simp
qed

text \<open>
  Without the proviso the dispatch part fails: behind a middleware that raises, a
  request for the re-registered pair is rejected and the latest handler is not called.
\<close>

theorem reregistration_failing_middleware_counterexample:
  "find_handler (routes_store heap_twice_failing (routes (apps heap_twice_failing 0))) ''/'' ''GET'' = Some h_users \<and>
   local_pathname (url (mk_request ''GET'' ''http://localhost/'')) = Some ''/'' \<and>
   fetch local_pathname 0 heap_twice_failing (mk_request ''GET'' ''http://localhost/'') =
     ([MiddlewareCalled 0], Inl (Thrown (JStr ''boom'')), heap_twice_failing)"
  by (simp add: heap_twice_failing_def sample_defs fetch_def mw_throw_def)

text \<open>
  C10. Registering a handler under a (path, method) pair, through \<^verbatim>\<open>#addRoute\<close>,
  \<^verbatim>\<open>get\<close>, \<^verbatim>\<open>post\<close>, \<^verbatim>\<open>put\<close>, \<^verbatim>\<open>delete\<close> or \<^verbatim>\<open>all\<close>, leaves the lookup
  of every other pair as it was, in every route Map of the heap: the same handler, or
  the same absence of one.
\<close>

theorem registration_leaves_other_bindings:
  "((path', mth') \<noteq> (path, mth) \<longrightarrow>
      find_handler (routes_store (addRoute this mth path hnd h) r) path' mth' =
      find_handler (routes_store h r) path' mth') \<and>
   ((path', mth') \<noteq> (path, ''GET'') \<longrightarrow>
      find_handler (routes_store (get this path hnd h) r) path' mth' =
      find_handler (routes_store h r) path' mth') \<and>
   ((path', mth') \<noteq> (path, ''POST'') \<longrightarrow>
      find_handler (routes_store (post this path hnd h) r) path' mth' =
      find_handler (routes_store h r) path' mth') \<and>
   ((path', mth') \<noteq> (path, ''PUT'') \<longrightarrow>
      find_handler (routes_store (put this path hnd h) r) path' mth' =
      find_handler (routes_store h r) path' mth') \<and>
   ((path', mth') \<noteq> (path, ''DELETE'') \<longrightarrow>
      find_handler (routes_store (delete this path hnd h) r) path' mth' =
      find_handler (routes_store h r) path' mth') \<and>
   ((path', mth') \<notin> {(path, ''GET''), (path, ''POST''), (path, ''PUT''), (path, ''DELETE'')} \<longrightarrow>
      find_handler (routes_store (all this path hnd h) r) path' mth' =
      find_handler (routes_store h r) path' mth')"
  unfolding get_def post_def put_def delete_def all_def Let_def
  by (simp add: find_handler_addRoute_other del: prod.inject)

theorem registration_leaves_other_bindings_witness:
  "(''/users'', ''GET'') \<noteq> (''/users'', ''POST'') \<and>
   find_handler (routes_store (addRoute 0 ''POST'' ''/users'' h_hi heap_users) 0) ''/users'' ''GET'' = Some h_users \<and>
   find_handler (routes_store (post 0 ''/users'' h_hi heap_users) 0) ''/users'' ''GET'' = Some h_users \<and>
   find_handler (routes_store (put 0 ''/users'' h_hi heap_users) 0) ''/users'' ''GET'' = Some h_users \<and>
   find_handler (routes_store (delete 0 ''/users'' h_hi heap_users) 0) ''/users'' ''GET'' = Some h_users \<and>
   (''/users'', ''GET'') \<notin> {(''/'', ''GET''), (''/'', ''POST''), (''/'', ''PUT''), (''/'', ''DELETE'')} \<and>
   find_handler (routes_store (get 0 ''/'' h_hi heap_users) 0) ''/users'' ''GET'' = Some h_users \<and>
   find_handler (routes_store (all 0 ''/'' h_hi heap_users) 0) ''/users'' ''GET'' = Some h_users \<and>
   find_handler (routes_store (all 0 ''/'' h_hi heap_users) 0) ''/users'' ''POST'' = None"
proof -
  have before: "find_handler (routes_store heap_users 0) ''/users'' ''GET'' = Some h_users"
    "find_handler (routes_store heap_users 0) ''/users'' ''POST'' = None"
    by (simp_all add: heap_users_def sample_defs)
  have n1: "(''/users'', ''GET'') \<noteq> (''/users'', ''POST'')" by simp
  have n2: "(''/users'', ''GET'') \<noteq> (''/users'', ''PUT'')" by simp
  have n3: "(''/users'', ''GET'') \<noteq> (''/users'', ''DELETE'')" by simp
  have n4: "(''/users'', ''GET'') \<noteq> (''/'', ''GET'')" by simp
  have n5: "(''/users'', ''GET'') \<notin> {(''/'', ''GET''), (''/'', ''POST''), (''/'', ''PUT''), (''/'', ''DELETE'')}"
    by simp
  have n6: "(''/users'', ''POST'') \<notin> {(''/'', ''GET''), (''/'', ''POST''), (''/'', ''PUT''), (''/'', ''DELETE'')}"
    by simp
  note t = registration_leaves_other_bindings
  from t[where path' = "''/users''" and mth' = "''GET''" and path = "''/users''" and mth = "''POST''"
           and this = 0 and hnd = h_hi and h = heap_users and r = 0]
       t[where path' = "''/users''" and mth' = "''GET''" and path = "''/''" and mth = "''GET''"
           and this = 0 and hnd = h_hi and h = heap_users and r = 0]
       t[where path' = "''/users''" and mth' = "''POST''" and path = "''/''" and mth = "''GET''"
           and this = 0 and hnd = h_hi and h = heap_users and r = 0]
       before n1 n2 n3 n4 n5 n6
  show ?thesis by simp
qed

text \<open>
  C7 (as amended). For every path and handler, \<^verbatim>\<open>all(path, h)\<close> is the four
  registrations of \<^verbatim>\<open>h\<close> under GET, POST, PUT and DELETE for that path and nothing
  else: the heap is the one the four calls \<^verbatim>\<open>get\<close>, \<^verbatim>\<open>post\<close>, \<^verbatim>\<open>put\<close>,
  \<^verbatim>\<open>delete\<close> leave, afterwards the lookup of the path under each of the four methods
  gives \<^verbatim>\<open>h\<close>, and a dispatch of a request for the path with one of the four methods
  calls \<^verbatim>\<open>h\<close> and settles with its result whenever every middleware completes
  without raising.
\<close>

theorem all_is_four_registrations:
  "all this path hnd h =
     delete this path hnd (put this path hnd (post this path hnd (get this path hnd h))) \<and>
   (mth \<in> {''GET'', ''POST'', ''PUT'', ''DELETE''} \<longrightarrow>
      find_handler (routes_store (all this path hnd h) (routes (apps (all this path hnd h) this))) path mth
        = Some hnd) \<and>
   (mth \<in> {''GET'', ''POST'', ''PUT'', ''DELETE''} \<and>
    req_method rq = mth \<and> pathname (url rq) = Some path \<and>
    run_middlewares (mws_store (all this path hnd h) (middlewares (apps (all this path hnd h) this))) 0
      \<lparr>req = rq, data = Map.empty, state = app_state (apps (all this path hnd h) this)\<rparr>
      (objects (all this path hnd h)) = (tr, Inr c1, s) \<and>
    hnd c1 s = (res, s1) \<longrightarrow>
      fetch pathname this (all this path hnd h) rq =
        (tr @ [RouteLookup path mth, HandlerCalled path mth], res, (all this path hnd h)\<lparr>objects := s1\<rparr>))"
proof (intro conjI impI)
  show "all this path hnd h =
     delete this path hnd (put this path hnd (post this path hnd (get this path hnd h)))"
    by (simp add: all_def get_def post_def put_def delete_def Let_def)
next
  assume "mth \<in> {''GET'', ''POST'', ''PUT'', ''DELETE''}"
  then show "find_handler (routes_store (all this path hnd h) (routes (apps (all this path hnd h) this))) path mth
        = Some hnd"
    using find_handler_all[of mth this path hnd h] by simp
next
  assume a: "mth \<in> {''GET'', ''POST'', ''PUT'', ''DELETE''} \<and>
    req_method rq = mth \<and> pathname (url rq) = Some path \<and>
    run_middlewares (mws_store (all this path hnd h) (middlewares (apps (all this path hnd h) this))) 0
      \<lparr>req = rq, data = Map.empty, state = app_state (apps (all this path hnd h) this)\<rparr>
      (objects (all this path hnd h)) = (tr, Inr c1, s) \<and>
    hnd c1 s = (res, s1)"
  then have f: "find_handler (routes_store (all this path hnd h) (routes (apps (all this path hnd h) this)))
                  path (req_method rq) = Some hnd"
    using find_handler_all[of mth this path hnd h] by simp
  from a have r: "run_middlewares (mws_store (all this path hnd h) (middlewares (apps (all this path hnd h) this))) 0
      \<lparr>req = rq, data = Map.empty, state = app_state (apps (all this path hnd h) this)\<rparr>
      (objects (all this path hnd h)) = (tr, Inr c1, s)" by simp
  from a have p: "pathname (url rq) = Some path" and q: "hnd c1 s = (res, s1)" and m: "req_method rq = mth"
    by simp_all
  show "fetch pathname this (all this path hnd h) rq =
        (tr @ [RouteLookup path mth, HandlerCalled path mth], res, (all this path hnd h)\<lparr>objects := s1\<rparr>)"
    using r p f q m by (simp add: fetch_def Let_def)
qed

theorem all_is_four_registrations_witness:
  "heap_all =
     delete 0 ''/x'' h_seen (put 0 ''/x'' h_seen (post 0 ''/x'' h_seen (get 0 ''/x'' h_seen (use 0 mw_mark heap0)))) \<and>
   ''PUT'' \<in> {''GET'', ''POST'', ''PUT'', ''DELETE''} \<and>
   find_handler (routes_store heap_all (routes (apps heap_all 0))) ''/x'' ''PUT'' = Some h_seen \<and>
   local_pathname (url (mk_request ''PUT'' ''http://localhost/x'')) = Some ''/x'' \<and>
   fetch local_pathname 0 heap_all (mk_request ''PUT'' ''http://localhost/x'') =
     ([MiddlewareCalled 0, RouteLookup ''/x'' ''PUT'', HandlerCalled ''/x'' ''PUT''],
      Inr \<lparr>status = 200, headers = [], body = ''marked''\<rparr>, heap_all)"
proof -
  let ?rq = "mk_request ''PUT'' ''http://localhost/x''"
  let ?c1 = "\<lparr>req = ?rq, data = [''t'' \<mapsto> JNum 1], state = JRef 0\<rparr>"
  let ?res = "Inr \<lparr>status = 200, headers = [], body = ''marked''\<rparr> :: error + response"
  have a1: "''PUT'' \<in> {''GET'', ''POST'', ''PUT'', ''DELETE''}" by simp
  have a2: "req_method ?rq = ''PUT''" by (simp add: mk_request_def)
  have a3: "local_pathname (url ?rq) = Some ''/x''" by (simp add: sample_defs)
  have a4: "run_middlewares (mws_store heap_all (middlewares (apps heap_all 0))) 0
      \<lparr>req = ?rq, data = Map.empty, state = app_state (apps heap_all 0)\<rparr>
      (objects heap_all) = ([MiddlewareCalled 0], Inr ?c1, objects heap_all)"
    by (simp add: heap_all_def all_def sample_defs mw_mark_def)
  have a5: "h_seen ?c1 (objects heap_all) = (?res, objects heap_all)"
    by (simp add: h_seen_def new_Response_def)
  from all_is_four_registrations
         [where this = 0 and path = "''/x''" and hnd = h_seen and h = "use 0 mw_mark heap0"
            and mth = "''PUT''" and rq = ?rq and pathname = local_pathname
            and tr = "[MiddlewareCalled 0]" and ?c1.0 = ?c1 and s = "objects heap_all"
            and res = ?res and ?s1.0 = "objects heap_all", folded heap_all_def]
    a1 a2 a3 a4 a5
  show ?thesis by simp
qed

text \<open>
  Without the proviso the last part fails: behind a middleware that raises, a
  \<^verbatim>\<open>GET /x\<close> after \<^verbatim>\<open>all("/x", h)\<close> is rejected and \<^verbatim>\<open>h\<close> is not called.
\<close>

theorem all_failing_middleware_counterexample:
  "find_handler (routes_store heap_all_failing (routes (apps heap_all_failing 0))) ''/x'' ''GET'' = Some h_hi \<and>
   local_pathname (url (mk_request ''GET'' ''http://localhost/x'')) = Some ''/x'' \<and>
   fetch local_pathname 0 heap_all_failing (mk_request ''GET'' ''http://localhost/x'') =
     ([MiddlewareCalled 0], Inl (Thrown (JStr ''boom'')), heap_all_failing)"
  by (simp add: heap_all_failing_def all_def sample_defs fetch_def mw_throw_def)

section \<open>Route lookup\<close>

text \<open>
  C8. The lookup in \<^verbatim>\<open>fetch\<close> is by the pathname of the parsed request URL and by
  the request's method string as it is: once the middleware have completed, the result
  is decided by the entry of the route Map under exactly that path and, in it, exactly
  that method (a handler there is called, anything else is the 404 response), and a
  registration under \<open>(path0, mth0)\<close> changes the lookup of \<open>(path', mth')\<close> only when
  both strings are equal. Nothing is normalised: a trailing slash, another letter case
  or a lower-case method is another key; the query string is not part of the pathname.
\<close>

theorem route_lookup_is_exact:
  "(run_middlewares (mws_store h (middlewares (apps h this))) 0
      \<lparr>req = rq, data = Map.empty, state = app_state (apps h this)\<rparr> (objects h) = (tr, Inr c1, s) \<longrightarrow>
      fetch pathname this h rq =
        (case pathname (url rq) of
           None \<Rightarrow> (tr, Inl TypeError_Invalid_URL, h\<lparr>objects := s\<rparr>)
         | Some path \<Rightarrow>
             (case routes_store h (routes (apps h this)) path of
                None \<Rightarrow>
                  (tr @ [RouteLookup path (req_method rq)],
                   Inr \<lparr>status = 404, headers = [], body = ''Not Found''\<rparr>, h\<lparr>objects := s\<rparr>)
              | Some inner \<Rightarrow>
                  (case inner (req_method rq) of
                     None \<Rightarrow>
                       (tr @ [RouteLookup path (req_method rq)],
                        Inr \<lparr>status = 404, headers = [], body = ''Not Found''\<rparr>, h\<lparr>objects := s\<rparr>)
                   | Some hnd \<Rightarrow>
                       (tr @ [RouteLookup path (req_method rq), HandlerCalled path (req_method rq)],
                        fst (hnd c1 s), h\<lparr>objects := snd (hnd c1 s)\<rparr>))))) \<and>
   find_handler (routes_store (addRoute this mth0 path0 hnd0 h) (routes (apps h this))) path' mth' =
     (if path' = path0 \<and> mth' = mth0 then Some hnd0
      else find_handler (routes_store h (routes (apps h this))) path' mth')"
proof (intro conjI impI)
  assume "run_middlewares (mws_store h (middlewares (apps h this))) 0
      \<lparr>req = rq, data = Map.empty, state = app_state (apps h this)\<rparr> (objects h) = (tr, Inr c1, s)"
  then show "fetch pathname this h rq =
        (case pathname (url rq) of
           None \<Rightarrow> (tr, Inl TypeError_Invalid_URL, h\<lparr>objects := s\<rparr>)
         | Some path \<Rightarrow>
             (case routes_store h (routes (apps h this)) path of
                None \<Rightarrow>
                  (tr @ [RouteLookup path (req_method rq)],
                   Inr \<lparr>status = 404, headers = [], body = ''Not Found''\<rparr>, h\<lparr>objects := s\<rparr>)
              | Some inner \<Rightarrow>
                  (case inner (req_method rq) of
                     None \<Rightarrow>
                       (tr @ [RouteLookup path (req_method rq)],
                        Inr \<lparr>status = 404, headers = [], body = ''Not Found''\<rparr>, h\<lparr>objects := s\<rparr>)
                   | Some hnd \<Rightarrow>
                       (tr @ [RouteLookup path (req_method rq), HandlerCalled path (req_method rq)],
                        fst (hnd c1 s), h\<lparr>objects := snd (hnd c1 s)\<rparr>))))"
    by (simp add: fetch_def find_handler_eq new_Response_def Let_def split: option.splits prod.splits)
next
  show "find_handler (routes_store (addRoute this mth0 path0 hnd0 h) (routes (apps h this))) path' mth' =
     (if path' = path0 \<and> mth' = mth0 then Some hnd0
      else find_handler (routes_store h (routes (apps h this))) path' mth')"
    using find_handler_addRoute_table_other[of path' mth' path0 mth0 hnd0]
    by (auto simp: routes_store_addRoute find_handler_addRoute_table_same)
qed

theorem route_lookup_is_exact_witness:
  "fst (snd (fetch local_pathname 0 heap_users (mk_request ''GET'' ''http://localhost/users?id=7''))) =
     Inr \<lparr>status = 201, headers = [(''Content-Type'', ''application/json'')], body = ''users''\<rparr> \<and>
   fst (snd (fetch local_pathname 0 heap_users (mk_request ''GET'' ''http://localhost/users/''))) =
     Inr \<lparr>status = 404, headers = [], body = ''Not Found''\<rparr> \<and>
   fst (snd (fetch local_pathname 0 heap_users (mk_request ''GET'' ''http://localhost/Users''))) =
     Inr \<lparr>status = 404, headers = [], body = ''Not Found''\<rparr> \<and>
   fst (snd (fetch local_pathname 0 heap_users (mk_request ''get'' ''http://localhost/users''))) =
     Inr \<lparr>status = 404, headers = [], body = ''Not Found''\<rparr> \<and>
   fst (fetch local_pathname 0 heap_users (mk_request ''get'' ''http://localhost/users?id=7'')) =
     [MiddlewareCalled 0, RouteLookup ''/users'' ''get'']"
proof -
  note t = route_lookup_is_exact[where pathname = local_pathname and h = heap_users and this = 0
             and tr = "[MiddlewareCalled 0]" and s = "objects heap_users", THEN conjunct1, rule_format]
  have tbl: "routes_store heap_users (routes (apps heap_users 0)) = [''/users'' \<mapsto> [''GET'' \<mapsto> h_users]]"
    by (simp add: heap_users_def sample_defs)
  have p: "local_pathname ''http://localhost/users?id=7'' = Some ''/users''"
    "local_pathname ''http://localhost/users/'' = Some ''/users/''"
    "local_pathname ''http://localhost/Users'' = Some ''/Users''"
    "local_pathname ''http://localhost/users'' = Some ''/users''"
    by (simp_all add: local_pathname_values)
  show ?thesis
    using t[OF heap_users_run[of "mk_request ''GET'' ''http://localhost/users?id=7''"]]
          t[OF heap_users_run[of "mk_request ''GET'' ''http://localhost/users/''"]]
          t[OF heap_users_run[of "mk_request ''GET'' ''http://localhost/Users''"]]
          t[OF heap_users_run[of "mk_request ''get'' ''http://localhost/users''"]]
          t[OF heap_users_run[of "mk_request ''get'' ''http://localhost/users?id=7''"]]
    by (simp add: tbl p mk_request_def h_users_def new_Response_def)
qed

section \<open>Errors\<close>

text \<open>
  C9. Nothing is caught in \<^verbatim>\<open>fetch\<close>. When the first \<open>k\<close> middleware of the
  pipeline complete and the next one raises, the call is rejected with that error: the
  trace is the calls of these \<open>k + 1\<close> middleware, once each, so the middleware after
  it are not called, no route is looked up and no handler is called. When all
  middleware complete and the URL constructor throws on the request's URL, the call is
  rejected with its \<^verbatim>\<open>TypeError\<close>. When all middleware complete and the handler
  registered for the request raises, the call is rejected with that error, the handler
  having been called once. In each case the writes made to the shared state before the
  error stay.
\<close>

theorem errors_propagate_out_of_fetch:
  "(steps_complete (mws_store h (middlewares (apps h this))) k cs \<and>
    cs ! 0 = (\<lparr>req = rq, data = Map.empty, state = app_state (apps h this)\<rparr>, objects h) \<and>
    k < length (mws_store h (middlewares (apps h this))) \<and>
    (mws_store h (middlewares (apps h this)) ! k) (fst (cs ! k)) (snd (cs ! k)) = (Inl e, s) \<longrightarrow>
      fetch pathname this h rq = (map MiddlewareCalled [0..<Suc k], Inl e, h\<lparr>objects := s\<rparr>)) \<and>
   (steps_complete (mws_store h (middlewares (apps h this))) k cs \<and>
    cs ! 0 = (\<lparr>req = rq, data = Map.empty, state = app_state (apps h this)\<rparr>, objects h) \<and>
    k = length (mws_store h (middlewares (apps h this))) \<and>
    pathname (url rq) = None \<longrightarrow>
      fetch pathname this h rq =
        (map MiddlewareCalled [0..<k], Inl TypeError_Invalid_URL, h\<lparr>objects := snd (cs ! k)\<rparr>)) \<and>
   (steps_complete (mws_store h (middlewares (apps h this))) k cs \<and>
    cs ! 0 = (\<lparr>req = rq, data = Map.empty, state = app_state (apps h this)\<rparr>, objects h) \<and>
    k = length (mws_store h (middlewares (apps h this))) \<and>
    pathname (url rq) = Some path \<and>
    routes_store h (routes (apps h this)) path = Some inner \<and>
    inner (req_method rq) = Some hnd \<and>
    hnd (fst (cs ! k)) (snd (cs ! k)) = (Inl e, s) \<longrightarrow>
      fetch pathname this h rq =
        (map MiddlewareCalled [0..<k] @ [RouteLookup path (req_method rq), HandlerCalled path (req_method rq)],
         Inl e, h\<lparr>objects := s\<rparr>))"
proof (intro conjI impI)
  assume a: "steps_complete (mws_store h (middlewares (apps h this))) k cs \<and>
    cs ! 0 = (\<lparr>req = rq, data = Map.empty, state = app_state (apps h this)\<rparr>, objects h) \<and>
    k < length (mws_store h (middlewares (apps h this))) \<and>
    (mws_store h (middlewares (apps h this)) ! k) (fst (cs ! k)) (snd (cs ! k)) = (Inl e, s)"
  have "run_middlewares (mws_store h (middlewares (apps h this))) 0
      \<lparr>req = rq, data = Map.empty, state = app_state (apps h this)\<rparr> (objects h) =
      (map MiddlewareCalled [0..<Suc k], Inl e, s)"
    using a by (intro run_middlewares_raises[of _ k cs]) blast+
  then show "fetch pathname this h rq = (map MiddlewareCalled [0..<Suc k], Inl e, h\<lparr>objects := s\<rparr>)"
    by (rule fetch_middleware_error)
next
  assume a: "steps_complete (mws_store h (middlewares (apps h this))) k cs \<and>
    cs ! 0 = (\<lparr>req = rq, data = Map.empty, state = app_state (apps h this)\<rparr>, objects h) \<and>
    k = length (mws_store h (middlewares (apps h this))) \<and>
    pathname (url rq) = None"
  have "run_middlewares (mws_store h (middlewares (apps h this))) 0
      \<lparr>req = rq, data = Map.empty, state = app_state (apps h this)\<rparr> (objects h) =
      (map MiddlewareCalled [0..<k], Inr (fst (cs ! k)), snd (cs ! k))"
    using a by (intro run_middlewares_completes[of _ k cs]) blast+
  moreover have "pathname (url rq) = None" using a by blast
  ultimately show "fetch pathname this h rq =
        (map MiddlewareCalled [0..<k], Inl TypeError_Invalid_URL, h\<lparr>objects := snd (cs ! k)\<rparr>)"
    by (simp add: fetch_def)
next
  assume a: "steps_complete (mws_store h (middlewares (apps h this))) k cs \<and>
    cs ! 0 = (\<lparr>req = rq, data = Map.empty, state = app_state (apps h this)\<rparr>, objects h) \<and>
    k = length (mws_store h (middlewares (apps h this))) \<and>
    pathname (url rq) = Some path \<and>
    routes_store h (routes (apps h this)) path = Some inner \<and>
    inner (req_method rq) = Some hnd \<and>
    hnd (fst (cs ! k)) (snd (cs ! k)) = (Inl e, s)"
  have "run_middlewares (mws_store h (middlewares (apps h this))) 0
      \<lparr>req = rq, data = Map.empty, state = app_state (apps h this)\<rparr> (objects h) =
      (map MiddlewareCalled [0..<k], Inr (fst (cs ! k)), snd (cs ! k))"
    using a by (intro run_middlewares_completes[of _ k cs]) blast+
  moreover have "pathname (url rq) = Some path" "routes_store h (routes (apps h this)) path = Some inner"
    "inner (req_method rq) = Some hnd" "hnd (fst (cs ! k)) (snd (cs ! k)) = (Inl e, s)"
    using a by blast+
  ultimately show "fetch pathname this h rq =
        (map MiddlewareCalled [0..<k] @ [RouteLookup path (req_method rq), HandlerCalled path (req_method rq)],
         Inl e, h\<lparr>objects := s\<rparr>)"
    by (simp add: fetch_def find_handler_def Let_def)
qed

theorem errors_propagate_out_of_fetch_witness:
  "mws_store heap_mark_throw (middlewares (apps heap_mark_throw 0)) ! 1 = mw_throw \<and>
   fetch local_pathname 0 heap_mark_throw (mk_request ''GET'' ''http://localhost/'') =
     ([MiddlewareCalled 0, MiddlewareCalled 1], Inl (Thrown (JStr ''boom'')),
      heap_mark_throw\<lparr>objects := (objects heap_mark_throw)(0 := [''hits'' \<mapsto> JNum 1])\<rparr>) \<and>
   local_pathname (url (mk_request ''GET'' ''/users'')) = None \<and>
   fetch local_pathname 0 heap_users (mk_request ''GET'' ''/users'') =
     ([MiddlewareCalled 0], Inl TypeError_Invalid_URL, heap_users) \<and>
   routes_store heap_handler_fails (routes (apps heap_handler_fails 0)) ''/'' = Some [''GET'' \<mapsto> h_fail] \<and>
   fetch local_pathname 0 heap_handler_fails (mk_request ''GET'' ''http://localhost/'') =
     ([MiddlewareCalled 0, RouteLookup ''/'' ''GET'', HandlerCalled ''/'' ''GET''],
      Inl (Thrown (JStr ''handler failed'')), heap_handler_fails)"
proof -
  let ?rq = "mk_request ''GET'' ''http://localhost/''"
  let ?bad = "mk_request ''GET'' ''/users''"
  let ?c0 = "\<lambda>r. \<lparr>req = r, data = Map.empty, state = JRef 0\<rparr>"
  let ?c1 = "\<lambda>r. \<lparr>req = r, data = [''t'' \<mapsto> JNum 1], state = JRef 0\<rparr>"
  let ?s1 = "(objects heap_mark_throw)(0 := [''hits'' \<mapsto> JNum 1])"
  note t = errors_propagate_out_of_fetch
  have m: "mws_store heap_mark_throw (middlewares (apps heap_mark_throw 0)) = [mw_count, mw_throw, mw_mark]"
    "app_state (apps heap_mark_throw 0) = JRef 0" "objects heap_mark_throw 0 = Map.empty"
    by (simp_all add: heap_mark_throw_def sample_defs)
  have a1: "steps_complete (mws_store heap_mark_throw (middlewares (apps heap_mark_throw 0))) 1
              [(?c0 ?rq, objects heap_mark_throw), (?c0 ?rq, ?s1)]"
    by (simp add: steps_complete_def m mw_count_def)
  have a2: "(mws_store heap_mark_throw (middlewares (apps heap_mark_throw 0)) ! 1) (?c0 ?rq) ?s1 =
              (Inl (Thrown (JStr ''boom'')), ?s1)"
    by (simp add: m mw_throw_def)
  have p1: "fetch local_pathname 0 heap_mark_throw ?rq =
     ([MiddlewareCalled 0, MiddlewareCalled 1], Inl (Thrown (JStr ''boom'')), heap_mark_throw\<lparr>objects := ?s1\<rparr>)"
    using t[where h = heap_mark_throw and this = 0 and rq = ?rq and pathname = local_pathname and k = 1
              and cs = "[(?c0 ?rq, objects heap_mark_throw), (?c0 ?rq, ?s1)]"
              and e = "Thrown (JStr ''boom'')" and s = ?s1, THEN conjunct1]
          a1 a2 m
    by (simp add: upt_rec)
  have u: "mws_store heap_users (middlewares (apps heap_users 0)) = [mw_mark]"
    "app_state (apps heap_users 0) = JRef 0" "objects (heap_users) = objects heap0"
    by (simp_all add: heap_users_def sample_defs)
  have b1: "steps_complete (mws_store heap_users (middlewares (apps heap_users 0))) 1
              [(?c0 ?bad, objects heap_users), (?c1 ?bad, objects heap_users)]"
    by (simp add: steps_complete_def u mw_mark_def)
  have b2: "local_pathname (url ?bad) = None" by (simp add: sample_defs)
  have p2: "fetch local_pathname 0 heap_users ?bad = ([MiddlewareCalled 0], Inl TypeError_Invalid_URL, heap_users)"
    using t[where h = heap_users and this = 0 and rq = ?bad and pathname = local_pathname and k = 1
              and cs = "[(?c0 ?bad, objects heap_users), (?c1 ?bad, objects heap_users)]",
              THEN conjunct2, THEN conjunct1]
          b1 b2 u(1,2)
    by (simp add: upt_rec)
  have f: "mws_store heap_handler_fails (middlewares (apps heap_handler_fails 0)) = [mw_mark]"
    "app_state (apps heap_handler_fails 0) = JRef 0"
    by (simp_all add: heap_handler_fails_def sample_defs)
  have c1: "steps_complete (mws_store heap_handler_fails (middlewares (apps heap_handler_fails 0))) 1
              [(?c0 ?rq, objects heap_handler_fails), (?c1 ?rq, objects heap_handler_fails)]"
    by (simp add: steps_complete_def f mw_mark_def)
  have c2: "local_pathname (url ?rq) = Some ''/''" by (simp add: sample_defs)
  have c3: "routes_store heap_handler_fails (routes (apps heap_handler_fails 0)) ''/'' = Some [''GET'' \<mapsto> h_fail]"
    by (simp add: heap_handler_fails_def sample_defs)
  have c4: "h_fail (?c1 ?rq) (objects heap_handler_fails) =
              (Inl (Thrown (JStr ''handler failed'')), objects heap_handler_fails)"
    by (simp add: h_fail_def)
  have c5: "req_method ?rq = ''GET''" by (simp add: mk_request_def)
  have p3: "fetch local_pathname 0 heap_handler_fails ?rq =
     ([MiddlewareCalled 0, RouteLookup ''/'' ''GET'', HandlerCalled ''/'' ''GET''],
      Inl (Thrown (JStr ''handler failed'')), heap_handler_fails)"
    using t[where h = heap_handler_fails and this = 0 and rq = ?rq and pathname = local_pathname and k = 1
              and cs = "[(?c0 ?rq, objects heap_handler_fails), (?c1 ?rq, objects heap_handler_fails)]"
              and path = "''/''" and inner = "[''GET'' \<mapsto> h_fail]" and hnd = h_fail
              and e = "Thrown (JStr ''handler failed'')" and s = "objects heap_handler_fails",
              THEN conjunct2, THEN conjunct2]
          c1 c2 c3 c4 c5 f
    by (simp add: upt_rec)
  from p1 p2 p3 b2 c3 m show ?thesis by simp
qed

section \<open>Middleware order\<close>

text \<open>
  C4 (as amended). \<^verbatim>\<open>use\<close> appends: the pipeline with a newly registered
  middleware runs the earlier ones first, unchanged and in their order, and then the new
  one on the context and the state they left. For every request dispatched through
  \<^verbatim>\<open>fetch\<close> in which no middleware raises, every middleware of the pipeline is called
  exactly once, in registration order, and all of them before the route is looked up
  and the handler is called; this does not depend on the route Map, so it also happens
  when no route matches.
\<close>

theorem middleware_run_in_registration_order:
  "run_middlewares (mws_store (use this mw h) (middlewares (apps (use this mw h) this))) 0 c s0 =
     (case run_middlewares (mws_store h (middlewares (apps h this))) 0 c s0 of
        (tr, Inl e, s1) \<Rightarrow> (tr, Inl e, s1)
      | (tr, Inr c1, s1) \<Rightarrow>
          (tr @ [MiddlewareCalled (length (mws_store h (middlewares (apps h this))))], mw c1 s1)) \<and>
   (run_middlewares (mws_store h (middlewares (apps h this))) 0
      \<lparr>req = rq, data = Map.empty, state = app_state (apps h this)\<rparr> (objects h) = (tr, Inr c1, s) \<longrightarrow>
      fst (fetch pathname this h rq) =
        map MiddlewareCalled [0..<length (mws_store h (middlewares (apps h this)))] @
        (case pathname (url rq) of
           None \<Rightarrow> []
         | Some path \<Rightarrow>
             (case find_handler (routes_store h (routes (apps h this))) path (req_method rq) of
                None \<Rightarrow> [RouteLookup path (req_method rq)]
              | Some hnd \<Rightarrow> [RouteLookup path (req_method rq), HandlerCalled path (req_method rq)])))"
proof (intro conjI impI)
  show "run_middlewares (mws_store (use this mw h) (middlewares (apps (use this mw h) this))) 0 c s0 =
     (case run_middlewares (mws_store h (middlewares (apps h this))) 0 c s0 of
        (tr, Inl e, s1) \<Rightarrow> (tr, Inl e, s1)
      | (tr, Inr c1, s1) \<Rightarrow>
          (tr @ [MiddlewareCalled (length (mws_store h (middlewares (apps h this))))], mw c1 s1))"
    by (simp add: mws_store_use run_middlewares_snoc split: prod.splits sum.splits)
next
  assume a: "run_middlewares (mws_store h (middlewares (apps h this))) 0
      \<lparr>req = rq, data = Map.empty, state = app_state (apps h this)\<rparr> (objects h) = (tr, Inr c1, s)"
  have tr: "tr = map MiddlewareCalled [0..<length (mws_store h (middlewares (apps h this)))]"
    by (rule run_middlewares_completed[OF a])
  show "fst (fetch pathname this h rq) =
        map MiddlewareCalled [0..<length (mws_store h (middlewares (apps h this)))] @
        (case pathname (url rq) of
           None \<Rightarrow> []
         | Some path \<Rightarrow>
             (case find_handler (routes_store h (routes (apps h this))) path (req_method rq) of
                None \<Rightarrow> [RouteLookup path (req_method rq)]
              | Some hnd \<Rightarrow> [RouteLookup path (req_method rq), HandlerCalled path (req_method rq)]))"
    unfolding tr[symmetric] using a
    by (simp add: fetch_def Let_def split: option.splits prod.splits)
qed

theorem middleware_run_in_registration_order_witness:
  "run_middlewares (mws_store (use 0 mw_mark (use 0 mw_count heap0))
       (middlewares (apps (use 0 mw_mark (use 0 mw_count heap0)) 0))) 0
     \<lparr>req = mk_request ''GET'' ''http://localhost/nowhere'', data = Map.empty, state = JRef 0\<rparr>
     (objects heap0) =
     ([MiddlewareCalled 0, MiddlewareCalled 1],
      Inr \<lparr>req = mk_request ''GET'' ''http://localhost/nowhere'', data = [''t'' \<mapsto> JNum 1], state = JRef 0\<rparr>,
      (objects heap0)(0 := [''hits'' \<mapsto> JNum 1])) \<and>
   fst (fetch local_pathname 0 heap_two (mk_request ''GET'' ''http://localhost/nowhere'')) =
     [MiddlewareCalled 0, MiddlewareCalled 1, RouteLookup ''/nowhere'' ''GET'']"
proof -
  let ?rq = "mk_request ''GET'' ''http://localhost/nowhere''"
  let ?c0 = "\<lparr>req = ?rq, data = Map.empty, state = JRef 0\<rparr>"
  let ?c1 = "\<lparr>req = ?rq, data = [''t'' \<mapsto> JNum 1], state = JRef 0\<rparr>"
  let ?s = "(objects heap0)(0 := [''hits'' \<mapsto> JNum 1])"
  note t = middleware_run_in_registration_order
  have a0: "run_middlewares (mws_store (use 0 mw_count heap0) (middlewares (apps (use 0 mw_count heap0) 0))) 0
              ?c0 (objects heap0) = ([MiddlewareCalled 0], Inr ?c0, ?s)"
    by (simp add: sample_defs mw_count_def)
  have a1: "run_middlewares (mws_store heap_two (middlewares (apps heap_two 0))) 0
              \<lparr>req = ?rq, data = Map.empty, state = app_state (apps heap_two 0)\<rparr> (objects heap_two)
            = ([MiddlewareCalled 0, MiddlewareCalled 1], Inr ?c1, ?s)"
    by (simp add: heap_two_def sample_defs mw_count_def mw_mark_def)
  have a2: "length (mws_store heap_two (middlewares (apps heap_two 0))) = 2"
    by (simp add: heap_two_def sample_defs)
  have a3: "local_pathname (url ?rq) = Some ''/nowhere''" by (simp add: sample_defs)
  have a4: "find_handler (routes_store heap_two (routes (apps heap_two 0))) ''/nowhere'' (req_method ?rq) = None"
    by (simp add: heap_two_def sample_defs)
  have a5: "length (mws_store (use 0 mw_count heap0) (middlewares (apps (use 0 mw_count heap0) 0))) = 1"
    by (simp add: sample_defs)
  have a6: "mw_mark ?c0 ?s = (Inr ?c1, ?s)" by (simp add: mw_mark_def)
  have a7: "[0..<2] = [0, Suc 0]" by (simp add: upt_rec)
  from t[where this = 0 and mw = mw_mark and h = "use 0 mw_count heap0" and c = ?c0 and ?s0.0 = "objects heap0"]
    a0 a5 a6
  have p1: "run_middlewares (mws_store (use 0 mw_mark (use 0 mw_count heap0))
       (middlewares (apps (use 0 mw_mark (use 0 mw_count heap0)) 0))) 0 ?c0 (objects heap0) =
     ([MiddlewareCalled 0, MiddlewareCalled 1], Inr ?c1, ?s)"
    by simp
  from t[where this = 0 and h = heap_two and rq = ?rq and pathname = local_pathname
           and tr = "[MiddlewareCalled 0, MiddlewareCalled 1]" and ?c1.0 = ?c1 and s = ?s]
    a1 a2 a3 a4 a7
  have p2: "fst (fetch local_pathname 0 heap_two ?rq) =
     [MiddlewareCalled 0, MiddlewareCalled 1, RouteLookup ''/nowhere'' ''GET'']"
    by (simp add: mk_request_def)
  from p1 p2 show ?thesis by simp
qed

text \<open>
  Without the proviso the claim fails: when the second of three middleware raises, the
  third is never called.
\<close>

theorem failing_middleware_skips_later_ones_counterexample:
  "mws_store heap_mark_throw (middlewares (apps heap_mark_throw 0)) = [mw_count, mw_throw, mw_mark] \<and>
   fst (fetch local_pathname 0 heap_mark_throw (mk_request ''GET'' ''http://localhost/'')) =
     [MiddlewareCalled 0, MiddlewareCalled 1]"
  by (simp add: heap_mark_throw_def sample_defs fetch_def mw_count_def mw_throw_def)

section \<open>State rebinding\<close>

text \<open>
  C3 (as amended). For every allocated application and every value, \<^verbatim>\<open>withState\<close>
  returns a new application (another object) whose route Map and middleware array are
  the ones of the source application, by reference: nothing in them is dropped,
  duplicated or reset by the call, a registration through either application is the
  same update of the heap and is found through the other. The new application's state
  is the value supplied and the source application keeps its own; assigning the
  \<^verbatim>\<open>state\<close> field of one leaves the field of the other, and, provided the value
  supplied is not the source application's own state, writing a property of the state
  of one leaves the state of the other as it was.
\<close>

theorem withState_shares_containers:
  assumes "allocated h this"
    and "withState this st h = (new, h1)"
  shows "new \<noteq> this \<and>
         routes (apps h1 new) = routes (apps h1 this) \<and>
         middlewares (apps h1 new) = middlewares (apps h1 this) \<and>
         app_state (apps h1 new) = st \<and>
         apps h1 this = apps h this \<and>
         routes_store h1 (routes (apps h1 this)) = routes_store h (routes (apps h this)) \<and>
         mws_store h1 (middlewares (apps h1 this)) = mws_store h (middlewares (apps h this)) \<and>
         addRoute new mth path hnd h1 = addRoute this mth path hnd h1 \<and>
         use new mw h1 = use this mw h1 \<and>
         find_handler (routes_store (addRoute this mth path hnd h1) (routes (apps h1 new))) path mth = Some hnd \<and>
         find_handler (routes_store (addRoute new mth path hnd h1) (routes (apps h1 this))) path mth = Some hnd \<and>
         state_get this k h1 = state_get this k h \<and>
         app_state (apps (state_assign new v h1) this) = app_state (apps h this) \<and>
         app_state (apps (state_assign this v h1) new) = st \<and>
         (st \<noteq> app_state (apps h this) \<longrightarrow>
            state_get this k (state_set new k' v h1) = state_get this k h1 \<and>
            state_get new k (state_set this k' v h1) = state_get new k h1)"
proof -
  from assms(1) have lt: "this < nxt h" "routes (apps h this) < nxt h" "middlewares (apps h this) < nxt h"
    and st: "case app_state (apps h this) of JRef a \<Rightarrow> a < nxt h | _ \<Rightarrow> True"
    by (simp_all add: allocated_def)
  from assms(2) have new: "new = nxt h"
    and h1: "h1 = h\<lparr>apps := (apps h)(nxt h :=
              \<lparr>routes = routes (apps h this), middlewares = middlewares (apps h this), app_state = st\<rparr>),
        routes_store := (routes_store h)(nxt h := Map.empty),
        mws_store := (mws_store h)(nxt h := []),
        objects := (objects h)(nxt h := Map.empty),
        nxt := nxt h + 1\<rparr>"
    using lt(1) by (auto simp: withState_result)
  have ne: "nxt h \<noteq> this" "routes (apps h this) \<noteq> nxt h" "middlewares (apps h this) \<noteq> nxt h"
    using lt by simp_all
  have c1: "new \<noteq> this" using new ne by simp
  have c2: "routes (apps h1 new) = routes (apps h1 this)"
    "middlewares (apps h1 new) = middlewares (apps h1 this)"
    "app_state (apps h1 new) = st" "apps h1 this = apps h this"
    using ne by (simp_all add: new h1)
  have c3: "routes_store h1 (routes (apps h1 this)) = routes_store h (routes (apps h this))"
    "mws_store h1 (middlewares (apps h1 this)) = mws_store h (middlewares (apps h this))"
    using ne by (simp_all add: h1)
  have c4: "addRoute new mth path hnd h1 = addRoute this mth path hnd h1"
    "use new mw h1 = use this mw h1"
    using c2 by (simp_all add: addRoute_def use_def Let_def)
  have c5: "find_handler (routes_store (addRoute this mth path hnd h1) (routes (apps h1 new))) path mth = Some hnd"
    "find_handler (routes_store (addRoute new mth path hnd h1) (routes (apps h1 this))) path mth = Some hnd"
    using c2 by (simp_all add: routes_store_addRoute find_handler_addRoute_table_same)
  have c6: "state_get this k h1 = state_get this k h"
    using st ne by (auto simp: state_get_def h1 split: jsval.splits)
  have c7: "app_state (apps (state_assign new v h1) this) = app_state (apps h this)"
    "app_state (apps (state_assign this v h1) new) = st"
    using c1 c2 by (simp_all add: state_assign_def)
  have c8: "st \<noteq> app_state (apps h this) \<longrightarrow>
            state_get this k (state_set new k' v h1) = state_get this k h1 \<and>
            state_get new k (state_set this k' v h1) = state_get new k h1"
    using c2 c1 by (auto simp: state_get_def state_set_def split: jsval.splits)
  from c1 c2 c3 c4 c5 c6 c7 c8 show ?thesis by blast
qed

theorem withState_shares_containers_witness:
  "allocated heap_version 0 \<and>
   withState 0 (JRef 1) heap_version = (2, heap_rebound) \<and>
   JRef 1 \<noteq> app_state (apps heap_version 0) \<and>
   routes (apps heap_rebound 2) = routes (apps heap_rebound 0) \<and>
   middlewares (apps heap_rebound 2) = middlewares (apps heap_rebound 0) \<and>
   app_state (apps heap_rebound 2) = JRef 1 \<and>
   find_handler (routes_store (addRoute 0 ''GET'' ''/'' h_hi heap_rebound) (routes (apps heap_rebound 2))) ''/'' ''GET''
     = Some h_hi \<and>
   find_handler (routes_store (addRoute 2 ''GET'' ''/'' h_hi heap_rebound) (routes (apps heap_rebound 0))) ''/'' ''GET''
     = Some h_hi \<and>
   state_get 0 ''version'' (state_set 2 ''version'' (JStr ''1.0.0'') heap_rebound) = None \<and>
   state_get 2 ''version'' (state_set 2 ''version'' (JStr ''1.0.0'') heap_rebound) = Some (JStr ''1.0.0'') \<and>
   state_get 2 ''version'' (state_set 0 ''version'' (JStr ''0.9'') heap_rebound) = Some (JStr '''') \<and>
   fst (snd (fetch local_pathname 2 heap_rebound (mk_request ''GET'' ''http://localhost/users''))) =
     Inr \<lparr>status = 201, headers = [(''Content-Type'', ''application/json'')], body = ''users''\<rparr>"
proof -
  have a1: "allocated heap_version 0"
    by (simp add: heap_version_def new_Object_def heap_users_def sample_defs allocated_def)
  have a2: "withState 0 (JRef 1) heap_version = (2, heap_rebound)"
    by (simp add: heap_rebound_def withState_result heap_version_def new_Object_def heap_users_def sample_defs)
  have a3: "JRef 1 \<noteq> app_state (apps heap_version 0)"
    by (simp add: heap_version_def new_Object_def heap_users_def sample_defs)
  have a4: "state_get 0 ''version'' heap_rebound = None" "state_get 2 ''version'' heap_rebound = Some (JStr '''')"
    "state_get 2 ''version'' (state_set 2 ''version'' (JStr ''1.0.0'') heap_rebound) = Some (JStr ''1.0.0'')"
    by (simp_all add: state_get_def state_set_def heap_rebound_def withState_result heap_version_def
          new_Object_def heap_users_def sample_defs)
  have a5: "fst (snd (fetch local_pathname 2 heap_rebound (mk_request ''GET'' ''http://localhost/users''))) =
     Inr \<lparr>status = 201, headers = [(''Content-Type'', ''application/json'')], body = ''users''\<rparr>"
    by (simp add: fetch_def heap_rebound_def withState_result heap_version_def
          new_Object_def heap_users_def sample_defs mw_mark_def h_users_def)
  note t = withState_shares_containers[OF a1 a2, where mth = "''GET''" and path = "''/''" and hnd = h_hi
             and k = "''version''" and k' = "''version''"]
  from t[where v = "JStr ''1.0.0''"] t[where v = "JStr ''0.9''"] a1 a2 a3 a4 a5
  show ?thesis by simp
qed

text \<open>
  Without the proviso the independence fails: rebinding an application to its own state
  object gives two applications with one state object, and a write through the new one
  is read through the old one.
\<close>

theorem withState_aliased_state_counterexample:
  "allocated heap0 0 \<and>
   withState 0 (app_state (apps heap0 0)) heap0 = (1, heap_aliased) \<and>
   state_get 0 ''version'' heap_aliased = None \<and>
   state_get 0 ''version'' (state_set 1 ''version'' (JStr ''1.0.0'') heap_aliased) = Some (JStr ''1.0.0'')"
  by (simp add: heap_aliased_def withState_result sample_defs allocated_def state_get_def state_set_def)

section \<open>Scratch data\<close>




end
